theory Spec2Isabelle
  imports Main "HOL-Library.Sublist"
begin

section \<open>Strings\<close>

text \<open>
  A Python \<open>str\<close> is a sequence of Unicode code points. It is modelled as a list of
  natural numbers, one per code point, so that \<open>str.strip()\<close> can be given with
  Python's own set of white-space characters. \<open>S\<close> turns an ASCII literal of the
  source into its code points; the line feed of \<open>"\n"\<close> is the code point 10.
\<close>

type_synonym str = "nat list"

definition S :: "string \<Rightarrow> str" where
  "S s = map of_char s"

text \<open>
  \<open>str.isspace\<close> on one code point, as CPython's \<open>_PyUnicode_IsWhitespace\<close> has it:
  U+0009..U+000D, U+001C..U+0020, U+0085, U+00A0, U+1680, U+2000..U+200A, U+2028, U+2029,
  U+202F, U+205F and U+3000.
\<close>

definition py_isspace :: "nat \<Rightarrow> bool" where
  "py_isspace c \<longleftrightarrow>
     (9 \<le> c \<and> c \<le> 13) \<or> (28 \<le> c \<and> c \<le> 32) \<or> c = 133 \<or> c = 160 \<or> c = 5760 \<or>
     (8192 \<le> c \<and> c \<le> 8202) \<or> c = 8232 \<or> c = 8233 \<or> c = 8239 \<or> c = 8287 \<or>
     c = 12288"

text \<open>\<open>s.strip()\<close>: white space is removed from both ends, nothing else changes.\<close>

definition strip :: "str \<Rightarrow> str" where
  "strip s = rev (dropWhile py_isspace (rev (dropWhile py_isspace s)))"

section \<open>The HTTP service \<open>gemini_canvas_app.py\<close>\<close>

subsection \<open>Requests, responses and effects\<close>

text \<open>
  The two pydantic request models. When the JSON body has no \<open>style\<close> the field is
  \<open>None\<close>; when it has no \<open>max_tokens\<close> the field is \<open>1000\<close>. A handler only ever sees
  a request that pydantic has accepted, so every field has its declared type.
\<close>

record TextRequest =
  "text" :: str
  action :: str
  style :: "str option"

record GenerateRequest =
  prompt :: str
  max_tokens :: "int option"

text \<open>
  The body of a \<open>/generate\<close> call may leave \<open>max_tokens\<close> out (outer \<open>None\<close>), give
  \<open>null\<close> or give an integer; the field default of the class fills the first case.
\<close>

definition GenerateRequest_init :: "str \<Rightarrow> int option option \<Rightarrow> GenerateRequest" where
  "GenerateRequest_init p mt =
     \<lparr>prompt = p, max_tokens = (case mt of None \<Rightarrow> Some 1000 | Some v \<Rightarrow> v)\<rparr>"

definition TextRequest_init :: "str \<Rightarrow> str \<Rightarrow> str option option \<Rightarrow> TextRequest" where
  "TextRequest_init t a st =
     \<lparr>text = t, action = a, style = (case st of None \<Rightarrow> None | Some v \<Rightarrow> v)\<rparr>"

text \<open>\<open>HTTPException(status_code=..., detail=...)\<close>, the only error a handler raises.\<close>

record HTTPException =
  status_code :: nat
  detail :: str

text \<open>The dictionaries the handlers return.\<close>

record ProcessResult =
  result :: str
  result_action :: str
  result_style :: "str option"

record GenerateResult =
  gen_result :: str
  gen_prompt :: str

text \<open>
  What a call into the Gemini client library does: it raises an exception \<open>e\<close>, of which
  the handlers only use \<open>str(e)\<close>, or it returns a value. For
  \<open>model.generate_content(p)\<close> the returned value is the \<open>text\<close> of the response (reading
  \<open>response.text\<close> happens inside the same \<open>try\<close>, so an exception of that property
  is an exception of the call); for \<open>genai.list_models()\<close> it is the list of the
  \<open>name\<close>s of the models that the iteration yields.

  The library is not part of the repository, so it is a parameter of the handlers. So is
  \<open>str\<close> of an \<open>HTTPException\<close>, which Starlette defines and which differs between
  its versions.
\<close>

datatype 'a outcome = Raises str | Returns 'a

record external =
  generate_content_api :: "str \<Rightarrow> str outcome"
  list_models_api :: "str list outcome"
  str_HTTPException :: "nat \<Rightarrow> str \<Rightarrow> str"

text \<open>
  The effects of a handler, in the order they happen: calls of the external API and
  log records.
\<close>

datatype event =
    ApiGenerateContent str
  | ApiListModels
  | LogInfo str
  | LogError str

definition is_api_call :: "event \<Rightarrow> bool" where
  "is_api_call ev = (case ev of ApiGenerateContent p \<Rightarrow> True | ApiListModels \<Rightarrow> True
                     | LogInfo m \<Rightarrow> False | LogError m \<Rightarrow> False)"

text \<open>
  FastAPI answers a handler that returns a value with status 200 and one that raises an
  \<open>HTTPException\<close> with its \<open>status_code\<close>.
\<close>

definition http_status :: "HTTPException + 'a \<Rightarrow> nat" where
  "http_status r = (case r of Inl e \<Rightarrow> status_code e | Inr v \<Rightarrow> 200)"

subsection \<open>\<open>POST /process\<close>\<close>

text \<open>
  \<open>style_modifier\<close> is the empty string unless \<open>req.style\<close> is truthy, that is neither
  \<open>None\<close> nor the empty string.
\<close>

definition style_modifier :: "TextRequest \<Rightarrow> str" where
  "style_modifier req =
     (case style req of
        None \<Rightarrow> []
      | Some s \<Rightarrow> if s = [] then [] else S '' Make the tone '' @ s @ S ''.'')"

text \<open>The dictionary literal \<open>prompt_map\<close>, key by key in the order of the source.\<close>

definition prompt_map :: "TextRequest \<Rightarrow> (str \<times> str) list" where
  "prompt_map req =
     [(S ''rewrite'',
         S ''Rewrite the following text in a clear, concise manner'' @ style_modifier req
           @ S '':'' @ [10, 10] @ text req),
      (S ''summarize'',
         S ''Summarize the following text concisely'' @ style_modifier req
           @ S '':'' @ [10, 10] @ text req),
      (S ''expand'',
         S ''Expand the following into more detailed content'' @ style_modifier req
           @ S '':'' @ [10, 10] @ text req),
      (S ''improve'',
         S ''Improve the following text for clarity and engagement'' @ style_modifier req
           @ S '':'' @ [10, 10] @ text req),
      (S ''simplify'',
         S ''Simplify the following text to make it easier to understand'' @ style_modifier req
           @ S '':'' @ [10, 10] @ text req)]"

text \<open>\<open>prompt_map.get(req.action)\<close>.\<close>

definition get_prompt :: "TextRequest \<Rightarrow> str option" where
  "get_prompt req = map_of (prompt_map req) (action req)"

text \<open>
  The \<open>try\<close> block of \<open>process_text\<close>. An empty \<open>response.text\<close> raises an
  \<open>HTTPException\<close> inside the \<open>try\<close>; \<open>except Exception\<close> catches it like any other
  exception and wraps its \<open>str\<close>.
\<close>

definition process_call :: "external \<Rightarrow> TextRequest \<Rightarrow> str \<Rightarrow> (HTTPException + ProcessResult) \<times> event list" where
  "process_call ext req p =
     (let raised = (\<lambda>m.
            (Inl \<lparr>status_code = 500, detail = S ''Error processing text: '' @ m\<rparr>,
             [ApiGenerateContent p, LogError (S ''Error processing text: '' @ m)]))
      in case generate_content_api ext p of
           Raises m \<Rightarrow> raised m
         | Returns t \<Rightarrow>
             if t = [] then raised (str_HTTPException ext 500 (S ''No response generated''))
             else (Inr \<lparr>result = t, result_action = action req, result_style = style req\<rparr>,
                   [ApiGenerateContent p,
                    LogInfo (S ''Successfully processed text with action: '' @ action req)]))"

definition process_text :: "external \<Rightarrow> TextRequest \<Rightarrow> (HTTPException + ProcessResult) \<times> event list" where
  "process_text ext req =
     (if strip (text req) = [] then
        (Inl \<lparr>status_code = 400, detail = S ''Text cannot be empty''\<rparr>, [])
      else
        (case get_prompt req of
           None \<Rightarrow> (Inl \<lparr>status_code = 400, detail = S ''Unsupported action: '' @ action req\<rparr>, [])
         | Some p \<Rightarrow>
             if p = [] then
               (Inl \<lparr>status_code = 400, detail = S ''Unsupported action: '' @ action req\<rparr>, [])
             else process_call ext req p))"

subsection \<open>\<open>POST /generate\<close>\<close>

definition generate_content :: "external \<Rightarrow> GenerateRequest \<Rightarrow> (HTTPException + GenerateResult) \<times> event list" where
  "generate_content ext req =
     (if strip (prompt req) = [] then
        (Inl \<lparr>status_code = 400, detail = S ''Prompt cannot be empty''\<rparr>, [])
      else
        (let raised = (\<lambda>m.
               (Inl \<lparr>status_code = 500, detail = S ''Error generating content: '' @ m\<rparr>,
                [ApiGenerateContent (prompt req),
                 LogError (S ''Error generating content: '' @ m)]))
         in case generate_content_api ext (prompt req) of
              Raises m \<Rightarrow> raised m
            | Returns t \<Rightarrow>
                if t = [] then raised (str_HTTPException ext 500 (S ''No content generated''))
                else (Inr \<lparr>gen_result = t, gen_prompt = prompt req\<rparr>,
                      [ApiGenerateContent (prompt req),
                       LogInfo (S ''Successfully generated new content'')])))"

subsection \<open>\<open>GET /health\<close> and \<open>GET /models\<close>\<close>

text \<open>The returned dictionary, as its items in order.\<close>

definition health_check :: "(HTTPException + (str \<times> str) list) \<times> event list" where
  "health_check =
     (Inr [(S ''status'', S ''healthy''), (S ''service'', S ''Gemini Canvas App'')], [])"

definition list_models :: "external \<Rightarrow> (HTTPException + str list) \<times> event list" where
  "list_models ext =
     (case list_models_api ext of
        Raises m \<Rightarrow>
          (Inl \<lparr>status_code = 500, detail = S ''Error listing models: '' @ m\<rparr>,
           [ApiListModels, LogError (S ''Error listing models: '' @ m)])
      | Returns names \<Rightarrow> (Inr names, [ApiListModels]))"

section \<open>Start-up of the service\<close>

text \<open>
  The module body up to \<open>genai.configure\<close>. \<open>dotenv.load_dotenv()\<close> adds the variables
  of a \<open>.env\<close> file to the process environment without replacing a variable that is
  already set; \<open>os.getenv\<close> then reads \<open>GEMINI_API_KEY\<close>. A missing or empty value is
  logged and raises \<open>ValueError\<close>, which ends the import of the module, so no
  application object exists; otherwise the value is the key the client is configured with.
\<close>

definition load_dotenv :: "(str \<rightharpoonup> str) \<Rightarrow> (str \<rightharpoonup> str) \<Rightarrow> (str \<rightharpoonup> str)" where
  "load_dotenv dotenv_file environ = dotenv_file ++ environ"

datatype startup = ValueError str | Configured str

definition API_KEY :: "(str \<rightharpoonup> str) \<Rightarrow> (str \<rightharpoonup> str) \<Rightarrow> startup \<times> event list" where
  "API_KEY dotenv_file environ =
     (let failed =
            (ValueError (S ''Please set GEMINI_API_KEY environment variable''),
             [LogError (S ''GEMINI_API_KEY environment variable not set'')])
      in case load_dotenv dotenv_file environ (S ''GEMINI_API_KEY'') of
           None \<Rightarrow> failed
         | Some k \<Rightarrow> if k = [] then failed else (Configured k, []))"

section \<open>The interactive script \<open>app_streamlit.py\<close>\<close>

text \<open>
  One run of the script: the title and the text area are drawn; when the button was
  pressed and the prompt is not empty, a client is built and asked for content, and the
  text or the error is shown. The script builds its client from a string literal
  written in the source (line 11); that literal is the parameter \<open>key_literal\<close> here, so
  that the credential is not repeated. The process environment is a parameter too: the
  script runs in one and never reads it. \<open>client_generate k p\<close> is what
  \<open>genai.Client(api_key=k).models.generate_content(model="gemini-2.0-flash", contents=p)\<close>
  does: it raises, or it returns a response, whose \<open>text\<close> in turn raises or is a string.
  The sub-header is drawn between the two.
\<close>

datatype st_event =
    Title str
  | Client str
  | Subheader str
  | Write str
  | Error str

definition app_streamlit ::
    "str \<Rightarrow> (str \<rightharpoonup> str) \<Rightarrow> (str \<Rightarrow> str \<Rightarrow> str outcome outcome) \<Rightarrow> str \<Rightarrow> bool
       \<Rightarrow> st_event list" where
  "app_streamlit key_literal environ client_generate prompt_input submit =
     Title (S ''Gemini Canvas Prompt'') #
     (if submit then
        (if prompt_input \<noteq> [] then
           Client key_literal #
           (case client_generate key_literal prompt_input of
              Raises m \<Rightarrow> [Error (S ''Error: '' @ m)]
            | Returns response \<Rightarrow>
                Subheader (S ''Response:'') #
                (case response of
                   Raises m \<Rightarrow> [Error (S ''Error: '' @ m)]
                 | Returns t \<Rightarrow> [Write t]))
         else [])
      else [])"

section \<open>Vocabulary of the properties\<close>

text \<open>The five keys of \<open>prompt_map\<close>.\<close>

definition recognized_actions :: "str list" where
  "recognized_actions =
     [S ''rewrite'', S ''summarize'', S ''expand'', S ''improve'', S ''simplify'']"

text \<open>
  The fixed text of an action: what its f-string has before the first placeholder.
\<close>

definition template_text :: "str \<Rightarrow> str" where
  "template_text a =
     (if a = S ''rewrite'' then S ''Rewrite the following text in a clear, concise manner''
      else if a = S ''summarize'' then S ''Summarize the following text concisely''
      else if a = S ''expand'' then S ''Expand the following into more detailed content''
      else if a = S ''improve'' then S ''Improve the following text for clarity and engagement''
      else if a = S ''simplify'' then
        S ''Simplify the following text to make it easier to understand''
      else [])"

text \<open>The prompts a handler has sent to the external API, read off its effects.\<close>

fun sent_prompts :: "event list \<Rightarrow> str list" where
  "sent_prompts [] = []"
| "sent_prompts (ApiGenerateContent p # evs) = p # sent_prompts evs"
| "sent_prompts (ev # evs) = sent_prompts evs"

section \<open>Basic facts\<close>

lemma S_eq_iff: "S s = S t \<longleftrightarrow> s = t"
  unfolding S_def by (simp add: inj_map_eq_map inj_on_def)

lemma S_Nil_iff: "S s = [] \<longleftrightarrow> s = []"
  by (simp add: S_def)

lemma dropWhile_all_iff: "(\<forall>x\<in>set (dropWhile P xs). P x) \<longleftrightarrow> (\<forall>x\<in>set xs. P x)"
  by (induction xs) auto

text \<open>The stripped text is empty exactly when every character is white space.\<close>

lemma strip_Nil_iff: "strip s = [] \<longleftrightarrow> list_all py_isspace s"
  unfolding strip_def
  by (simp add: list_all_iff dropWhile_all_iff)

lemma prompt_map_keys: "map fst (prompt_map req) = recognized_actions"
  by (simp add: prompt_map_def recognized_actions_def)

lemma get_prompt_recognized:
  assumes "action req \<in> set recognized_actions"
  shows "get_prompt req =
           Some (template_text (action req) @ style_modifier req @ S '':'' @ [10, 10] @ text req)"
  using assms
  by (auto simp add: get_prompt_def prompt_map_def recognized_actions_def template_text_def
        S_eq_iff)

lemma get_prompt_unrecognized:
  assumes "action req \<notin> set recognized_actions"
  shows "get_prompt req = None"
  using assms by (simp add: get_prompt_def prompt_map_def recognized_actions_def)

lemma template_text_nonempty:
  "a \<in> set recognized_actions \<Longrightarrow> template_text a \<noteq> []"
  by (auto simp add: recognized_actions_def template_text_def S_eq_iff S_Nil_iff)

lemma sent_prompts_process_call:
  "sent_prompts (snd (process_call ext req p)) = [p]"
  by (simp add: process_call_def Let_def split: outcome.split)

lemma process_text_valid:
  assumes "strip (text req) \<noteq> []" and "action req \<in> set recognized_actions"
  shows "process_text ext req =
           process_call ext req
             (template_text (action req) @ style_modifier req @ S '':'' @ [10, 10] @ text req)"
  using assms template_text_nonempty [of "action req"]
  by (simp add: process_text_def get_prompt_recognized)

lemma get_prompt_nonempty:
  assumes "get_prompt req = Some p"
  shows "p \<noteq> []"
proof (cases "action req \<in> set recognized_actions")
  case True
  with assms template_text_nonempty [of "action req"] show ?thesis
    by (auto simp add: get_prompt_recognized)
next
  case False
  with assms show ?thesis by (simp add: get_prompt_unrecognized)
qed

lemma process_text_prompt:
  assumes "strip (text req) \<noteq> []" and "get_prompt req = Some p"
  shows "process_text ext req = process_call ext req p"
  using assms get_prompt_nonempty [OF assms(2)] by (simp add: process_text_def)

lemma generate_content_prompt_only:
  "prompt r1 = prompt r2 \<Longrightarrow> generate_content ext r1 = generate_content ext r2"
  by (simp add: generate_content_def split: outcome.split)

section \<open>The prompt builder\<close>

text \<open>
  Claim C1. For each of the five actions and every text that is not empty after
  trimming, \<open>process_text\<close> sends exactly one prompt to the external API; that prompt
  starts with the fixed text of the action and ends with the text of the request as it
  was received, untrimmed.
\<close>

theorem process_text_prompt_prefix_suffix:
  assumes "action req \<in> set recognized_actions" and "strip (text req) \<noteq> []"
  shows "\<exists>p. sent_prompts (snd (process_text ext req)) = [p]
             \<and> prefix (template_text (action req)) p \<and> suffix (text req) p"
proof -
  let ?p = "template_text (action req) @ style_modifier req @ S '':'' @ [10, 10] @ text req"
  have "sent_prompts (snd (process_text ext req)) = [?p]"
    using assms by (simp add: process_text_valid sent_prompts_process_call)
  moreover have "prefix (template_text (action req)) ?p"
    by simp
  moreover have "suffix (text req) ?p"
    by (simp add: suffix_def)
  ultimately show ?thesis by blast
qed

theorem process_text_prompt_prefix_suffix_witness:
  "action \<lparr>text = S '' hi there '', action = S ''expand'', style = Some (S ''formal'')\<rparr>
     \<in> set recognized_actions
   \<and> strip (text \<lparr>text = S '' hi there '', action = S ''expand'', style = Some (S ''formal'')\<rparr>)
       \<noteq> []
   \<and> (\<exists>p. sent_prompts (snd (process_text
               \<lparr>generate_content_api = (\<lambda>q. Returns (S ''ok'')), list_models_api = Returns [],
                 str_HTTPException = (\<lambda>c d. d)\<rparr>
               \<lparr>text = S '' hi there '', action = S ''expand'', style = Some (S ''formal'')\<rparr>))
             = [p]
          \<and> prefix (template_text (action
               \<lparr>text = S '' hi there '', action = S ''expand'', style = Some (S ''formal'')\<rparr>)) p
          \<and> suffix (text
               \<lparr>text = S '' hi there '', action = S ''expand'', style = Some (S ''formal'')\<rparr>) p)"
proof -
  let ?r = "\<lparr>text = S '' hi there '', action = S ''expand'', style = Some (S ''formal'')\<rparr>"
  have a: "action ?r \<in> set recognized_actions"
    by (simp add: recognized_actions_def)
  have b: "strip (text ?r) \<noteq> []"
    by (simp add: strip_def S_def py_isspace_def)
  show ?thesis
    using process_text_prompt_prefix_suffix [OF a b] a b by blast
qed

text \<open>
  Claim C2, as stated, asks for the clause \<open>" Make the tone {style}."\<close> whenever a style
  value is supplied. A request may supply the empty string (the test page does, for its
  "Default" option); \<open>if req.style:\<close> then takes the branch of no style and the prompt
  has no clause \<open>" Make the tone ."\<close>.
\<close>

theorem process_text_empty_style_no_clause:
  "style \<lparr>text = S ''hi'', action = S ''rewrite'', style = Some []\<rparr> = Some []
   \<and> get_prompt \<lparr>text = S ''hi'', action = S ''rewrite'', style = Some []\<rparr>
       = Some (S ''Rewrite the following text in a clear, concise manner:'' @ [10, 10] @ S ''hi'')
   \<and> \<not> sublist (S '' Make the tone '' @ [] @ S ''.'')
         (S ''Rewrite the following text in a clear, concise manner:'' @ [10, 10] @ S ''hi'')"
  by (simp add: get_prompt_def prompt_map_def style_modifier_def S_def sublist_code)

text \<open>
  Claim C2, amended. For a recognized action and a text that is not empty after
  trimming: when the style supplied is a non-empty string \<open>s\<close>, the prompt sent is the
  fixed text of the action, then exactly \<open>" Make the tone s."\<close>, then \<open>":\n\n"\<close> and
  the text; when the style is omitted, the prompt is the fixed text, \<open>":\n\n"\<close> and the
  text, with nothing in between.
\<close>

theorem process_text_style_clause:
  assumes "action req \<in> set recognized_actions" and "strip (text req) \<noteq> []"
  shows "(\<forall>s. style req = Some s \<and> s \<noteq> [] \<longrightarrow>
            sent_prompts (snd (process_text ext req)) =
              [template_text (action req) @ (S '' Make the tone '' @ s @ S ''.'')
                 @ S '':'' @ [10, 10] @ text req])
       \<and> (style req = None \<longrightarrow>
            sent_prompts (snd (process_text ext req)) =
              [template_text (action req) @ S '':'' @ [10, 10] @ text req])"
  using assms
  by (simp add: process_text_valid sent_prompts_process_call style_modifier_def)

theorem process_text_style_clause_witness:
  "action \<lparr>text = S ''Hello'', action = S ''summarize'', style = Some (S ''formal'')\<rparr>
     \<in> set recognized_actions
   \<and> strip (text \<lparr>text = S ''Hello'', action = S ''summarize'', style = Some (S ''formal'')\<rparr>) \<noteq> []
   \<and> style \<lparr>text = S ''Hello'', action = S ''summarize'', style = Some (S ''formal'')\<rparr>
       = Some (S ''formal'')
   \<and> S ''formal'' \<noteq> []
   \<and> sent_prompts (snd (process_text
        \<lparr>generate_content_api = (\<lambda>q. Returns (S ''ok'')), list_models_api = Returns [],
          str_HTTPException = (\<lambda>c d. d)\<rparr>
        \<lparr>text = S ''Hello'', action = S ''summarize'', style = Some (S ''formal'')\<rparr>))
       = [S ''Summarize the following text concisely Make the tone formal.:'' @ [10, 10]
            @ S ''Hello'']
   \<and> action \<lparr>text = S ''Hello'', action = S ''summarize'', style = None\<rparr>
       \<in> set recognized_actions
   \<and> strip (text \<lparr>text = S ''Hello'', action = S ''summarize'', style = None\<rparr>) \<noteq> []
   \<and> style \<lparr>text = S ''Hello'', action = S ''summarize'', style = None\<rparr> = None
   \<and> sent_prompts (snd (process_text
        \<lparr>generate_content_api = (\<lambda>q. Returns (S ''ok'')), list_models_api = Returns [],
          str_HTTPException = (\<lambda>c d. d)\<rparr>
        \<lparr>text = S ''Hello'', action = S ''summarize'', style = None\<rparr>))
       = [S ''Summarize the following text concisely:'' @ [10, 10] @ S ''Hello'']"
proof -
  let ?e = "\<lparr>generate_content_api = (\<lambda>q. Returns (S ''ok'')), list_models_api = Returns [],
             str_HTTPException = (\<lambda>c d. d)\<rparr>"
  let ?r1 = "\<lparr>text = S ''Hello'', action = S ''summarize'', style = Some (S ''formal'')\<rparr>"
  let ?r2 = "\<lparr>text = S ''Hello'', action = S ''summarize'', style = None\<rparr>"
  have a1: "action ?r1 \<in> set recognized_actions" and a2: "action ?r2 \<in> set recognized_actions"
    by (simp_all add: recognized_actions_def)
  have b1: "strip (text ?r1) \<noteq> []" and b2: "strip (text ?r2) \<noteq> []"
    by (simp_all add: strip_def S_def py_isspace_def)
  have t: "template_text (S ''summarize'') = S ''Summarize the following text concisely''"
    by (simp add: template_text_def S_eq_iff)
  have n: "S ''formal'' \<noteq> []"
    by (simp add: S_def)
  have c1: "sent_prompts (snd (process_text ?e ?r1))
       = [S ''Summarize the following text concisely Make the tone formal.:'' @ [10, 10]
            @ S ''Hello'']"
    using process_text_style_clause [OF a1 b1, of ?e] n by (simp add: t) (simp add: S_def)
  have c2: "sent_prompts (snd (process_text ?e ?r2))
       = [S ''Summarize the following text concisely:'' @ [10, 10] @ S ''Hello'']"
    using process_text_style_clause [OF a2 b2, of ?e] by (simp add: t) (simp add: S_def)
  show ?thesis
    using a1 a2 b1 b2 n c1 c2 by simp
qed

section \<open>Validation errors\<close>

text \<open>
  Claim C3. When the text of a request is empty or has white space only, whatever the
  action, \<open>process_text\<close> raises the \<open>HTTPException\<close> with status 400 and detail
  \<open>"Text cannot be empty"\<close>, and has no effect at all: the external API is not called.
\<close>

theorem process_text_blank_text_rejected:
  assumes "list_all py_isspace (text req)"
  shows "process_text ext req =
           (Inl \<lparr>status_code = 400, detail = S ''Text cannot be empty''\<rparr>, [])
       \<and> http_status (fst (process_text ext req)) = 400
       \<and> filter is_api_call (snd (process_text ext req)) = []"
  using assms by (simp add: process_text_def strip_Nil_iff http_status_def)

theorem process_text_blank_text_rejected_witness:
  "list_all py_isspace (text \<lparr>text = [32, 9, 10, 8195], action = S ''rewrite'', style = None\<rparr>)
   \<and> process_text
        \<lparr>generate_content_api = (\<lambda>q. Returns (S ''ok'')), list_models_api = Returns [],
          str_HTTPException = (\<lambda>c d. d)\<rparr>
        \<lparr>text = [32, 9, 10, 8195], action = S ''rewrite'', style = None\<rparr>
       = (Inl \<lparr>status_code = 400, detail = S ''Text cannot be empty''\<rparr>, [])
   \<and> list_all py_isspace (text \<lparr>text = [], action = S ''unknown'', style = None\<rparr>)
   \<and> http_status (fst (process_text
        \<lparr>generate_content_api = (\<lambda>q. Returns (S ''ok'')), list_models_api = Returns [],
          str_HTTPException = (\<lambda>c d. d)\<rparr>
        \<lparr>text = [], action = S ''unknown'', style = None\<rparr>)) = 400"
proof -
  let ?e = "\<lparr>generate_content_api = (\<lambda>q. Returns (S ''ok'')), list_models_api = Returns [],
             str_HTTPException = (\<lambda>c d. d)\<rparr>"
  let ?r1 = "\<lparr>text = [32, 9, 10, 8195], action = S ''rewrite'', style = None\<rparr>"
  let ?r2 = "\<lparr>text = [], action = S ''unknown'', style = None\<rparr>"
  have a1: "list_all py_isspace (text ?r1)"
    by (simp add: py_isspace_def)
  have a2: "list_all py_isspace (text ?r2)"
    by simp
  show ?thesis
    using process_text_blank_text_rejected [OF a1, of ?e]
      process_text_blank_text_rejected [OF a2, of ?e] a1 a2
    by blast
qed

text \<open>
  Claim C4. When the text is not empty after trimming and the action is none of the
  five keys, \<open>process_text\<close> raises the \<open>HTTPException\<close> with status 400 whose detail is
  \<open>"Unsupported action: "\<close> followed by the action, and the external API is not called.
\<close>

theorem process_text_unknown_action_rejected:
  assumes "strip (text req) \<noteq> []" and "action req \<notin> set recognized_actions"
  shows "process_text ext req =
           (Inl \<lparr>status_code = 400, detail = S ''Unsupported action: '' @ action req\<rparr>, [])
       \<and> http_status (fst (process_text ext req)) = 400
       \<and> filter is_api_call (snd (process_text ext req)) = []"
  using assms
  by (simp add: process_text_def get_prompt_unrecognized http_status_def)

theorem process_text_unknown_action_rejected_witness:
  "strip (text \<lparr>text = S ''Hello'', action = S ''unknown'', style = None\<rparr>) \<noteq> []
   \<and> action \<lparr>text = S ''Hello'', action = S ''unknown'', style = None\<rparr>
       \<notin> set recognized_actions
   \<and> process_text
        \<lparr>generate_content_api = (\<lambda>q. Returns (S ''ok'')), list_models_api = Returns [],
          str_HTTPException = (\<lambda>c d. d)\<rparr>
        \<lparr>text = S ''Hello'', action = S ''unknown'', style = None\<rparr>
       = (Inl \<lparr>status_code = 400, detail = S ''Unsupported action: unknown''\<rparr>, [])"
proof -
  let ?e = "\<lparr>generate_content_api = (\<lambda>q. Returns (S ''ok'')), list_models_api = Returns [],
             str_HTTPException = (\<lambda>c d. d)\<rparr>"
  let ?r = "\<lparr>text = S ''Hello'', action = S ''unknown'', style = None\<rparr>"
  have a: "strip (text ?r) \<noteq> []"
    by (simp add: strip_def S_def py_isspace_def)
  have b: "action ?r \<notin> set recognized_actions"
    by (simp add: recognized_actions_def S_eq_iff)
  have c: "S ''Unsupported action: '' @ S ''unknown'' = S ''Unsupported action: unknown''"
    by (simp add: S_def)
  show ?thesis
    using process_text_unknown_action_rejected [OF a b, of ?e] a b c by simp
qed

section \<open>Failures of the external API\<close>

text \<open>
  Claim C5. Whenever the call of the external API raises an exception with message \<open>m\<close>,
  the handler that made the call raises the \<open>HTTPException\<close> with status 500 whose
  detail ends with \<open>m\<close>: \<open>"Error processing text: m"\<close> for \<open>process_text\<close>,
  \<open>"Error generating content: m"\<close> for \<open>generate_content\<close> and
  \<open>"Error listing models: m"\<close> for \<open>list_models\<close>. The first two reach the call only
  with a request that passed validation.
\<close>

theorem api_exception_gives_500:
  "(strip (text req) \<noteq> [] \<and> get_prompt req = Some p \<and> generate_content_api ext p = Raises m \<longrightarrow>
      fst (process_text ext req) =
        Inl \<lparr>status_code = 500, detail = S ''Error processing text: '' @ m\<rparr>
      \<and> http_status (fst (process_text ext req)) = 500)
   \<and> (strip (prompt greq) \<noteq> [] \<and> generate_content_api ext (prompt greq) = Raises m \<longrightarrow>
      fst (generate_content ext greq) =
        Inl \<lparr>status_code = 500, detail = S ''Error generating content: '' @ m\<rparr>
      \<and> http_status (fst (generate_content ext greq)) = 500)
   \<and> (list_models_api ext = Raises m \<longrightarrow>
      fst (list_models ext) =
        Inl \<lparr>status_code = 500, detail = S ''Error listing models: '' @ m\<rparr>
      \<and> http_status (fst (list_models ext)) = 500)"
proof (intro conjI impI)
  assume h: "strip (text req) \<noteq> [] \<and> get_prompt req = Some p \<and> generate_content_api ext p = Raises m"
  then have "process_text ext req = process_call ext req p"
    by (simp add: process_text_prompt)
  with h show "fst (process_text ext req) =
        Inl \<lparr>status_code = 500, detail = S ''Error processing text: '' @ m\<rparr>"
    by (simp add: process_call_def)
  then show "http_status (fst (process_text ext req)) = 500"
    by (simp add: http_status_def)
next
  assume h: "strip (prompt greq) \<noteq> [] \<and> generate_content_api ext (prompt greq) = Raises m"
  then show "fst (generate_content ext greq) =
        Inl \<lparr>status_code = 500, detail = S ''Error generating content: '' @ m\<rparr>"
    by (simp add: generate_content_def)
  then show "http_status (fst (generate_content ext greq)) = 500"
    by (simp add: http_status_def)
next
  assume "list_models_api ext = Raises m"
  then show "fst (list_models ext) =
        Inl \<lparr>status_code = 500, detail = S ''Error listing models: '' @ m\<rparr>"
    by (simp add: list_models_def)
  then show "http_status (fst (list_models ext)) = 500"
    by (simp add: http_status_def)
qed

theorem api_exception_gives_500_witness:
  "strip (text \<lparr>text = S ''Hello'', action = S ''improve'', style = None\<rparr>) \<noteq> []
   \<and> get_prompt \<lparr>text = S ''Hello'', action = S ''improve'', style = None\<rparr>
       = Some (S ''Improve the following text for clarity and engagement:'' @ [10, 10] @ S ''Hello'')
   \<and> generate_content_api
        \<lparr>generate_content_api = (\<lambda>q. Raises (S ''quota exceeded'')),
          list_models_api = Raises (S ''quota exceeded''), str_HTTPException = (\<lambda>c d. d)\<rparr>
        (S ''Improve the following text for clarity and engagement:'' @ [10, 10] @ S ''Hello'')
       = Raises (S ''quota exceeded'')
   \<and> fst (process_text
        \<lparr>generate_content_api = (\<lambda>q. Raises (S ''quota exceeded'')),
          list_models_api = Raises (S ''quota exceeded''), str_HTTPException = (\<lambda>c d. d)\<rparr>
        \<lparr>text = S ''Hello'', action = S ''improve'', style = None\<rparr>)
       = Inl \<lparr>status_code = 500, detail = S ''Error processing text: '' @ S ''quota exceeded''\<rparr>
   \<and> strip (prompt \<lparr>prompt = S ''Write a poem'', max_tokens = Some 1000\<rparr>) \<noteq> []
   \<and> fst (generate_content
        \<lparr>generate_content_api = (\<lambda>q. Raises (S ''quota exceeded'')),
          list_models_api = Raises (S ''quota exceeded''), str_HTTPException = (\<lambda>c d. d)\<rparr>
        \<lparr>prompt = S ''Write a poem'', max_tokens = Some 1000\<rparr>)
       = Inl \<lparr>status_code = 500, detail = S ''Error generating content: '' @ S ''quota exceeded''\<rparr>
   \<and> fst (list_models
        \<lparr>generate_content_api = (\<lambda>q. Raises (S ''quota exceeded'')),
          list_models_api = Raises (S ''quota exceeded''), str_HTTPException = (\<lambda>c d. d)\<rparr>)
       = Inl \<lparr>status_code = 500, detail = S ''Error listing models: '' @ S ''quota exceeded''\<rparr>"
proof -
  let ?e = "\<lparr>generate_content_api = (\<lambda>q. Raises (S ''quota exceeded'')),
             list_models_api = Raises (S ''quota exceeded''), str_HTTPException = (\<lambda>c d. d)\<rparr>"
  let ?r = "\<lparr>text = S ''Hello'', action = S ''improve'', style = None\<rparr>"
  let ?g = "\<lparr>prompt = S ''Write a poem'', max_tokens = Some 1000\<rparr>"
  let ?p = "S ''Improve the following text for clarity and engagement:'' @ [10, 10] @ S ''Hello''"
  have a: "strip (text ?r) \<noteq> []"
    by (simp add: strip_def S_def py_isspace_def)
  have b: "get_prompt ?r = Some ?p"
    by (simp add: get_prompt_def prompt_map_def style_modifier_def S_def)
  have c: "generate_content_api ?e ?p = Raises (S ''quota exceeded'')"
    by simp
  have d: "strip (prompt ?g) \<noteq> []"
    by (simp add: strip_def S_def py_isspace_def)
  have e: "generate_content_api ?e (prompt ?g) = Raises (S ''quota exceeded'')"
    by simp
  have f: "list_models_api ?e = Raises (S ''quota exceeded'')"
    by simp
  show ?thesis
    using api_exception_gives_500 [of ?r ?p ?e "S ''quota exceeded''" ?g] a b c d e f
    by blast
qed

text \<open>
  An empty \<open>response.text\<close> takes the same path as an exception of the call whose
  message is \<open>str\<close> of the \<open>HTTPException\<close> raised inside the \<open>try\<close>.
\<close>

lemma process_call_empty_as_failure:
  assumes "generate_content_api ext p = Returns []"
  shows "process_call ext req p =
           process_call
             (ext\<lparr>generate_content_api :=
                    \<lambda>q. Raises (str_HTTPException ext 500 (S ''No response generated''))\<rparr>)
             req p"
  using assms by (simp add: process_call_def)

lemma process_call_success_nonempty:
  "fst (process_call ext req p) = Inr r \<Longrightarrow> result r \<noteq> []"
  by (auto simp add: process_call_def Let_def split: outcome.splits if_splits)

lemma process_text_success_nonempty:
  "fst (process_text ext req) = Inr r \<Longrightarrow> result r \<noteq> []"
  by (auto simp add: process_text_def dest: process_call_success_nonempty
        split: if_splits option.splits)

lemma generate_content_success_nonempty:
  "fst (generate_content ext greq) = Inr g \<Longrightarrow> gen_result g \<noteq> []"
  by (auto simp add: generate_content_def Let_def split: outcome.splits if_splits)

text \<open>
  Claim C6. For a request that passed validation, when the external API returns an
  empty text, \<open>process_text\<close> and \<open>generate_content\<close> answer with status 500, and their
  whole outcome (error and effects) is the one of an API call that raised an exception;
  and no handler ever returns a success whose \<open>result\<close> is empty.
\<close>

theorem empty_response_is_failure:
  "(strip (text req) \<noteq> [] \<and> get_prompt req = Some p \<and> generate_content_api ext p = Returns [] \<longrightarrow>
      http_status (fst (process_text ext req)) = 500
      \<and> process_text ext req =
          process_text
            (ext\<lparr>generate_content_api :=
                   \<lambda>q. Raises (str_HTTPException ext 500 (S ''No response generated''))\<rparr>)
            req)
   \<and> (strip (prompt greq) \<noteq> [] \<and> generate_content_api ext (prompt greq) = Returns [] \<longrightarrow>
      http_status (fst (generate_content ext greq)) = 500
      \<and> generate_content ext greq =
          generate_content
            (ext\<lparr>generate_content_api :=
                   \<lambda>q. Raises (str_HTTPException ext 500 (S ''No content generated''))\<rparr>)
            greq)
   \<and> (\<forall>r. fst (process_text ext req) = Inr r \<longrightarrow> result r \<noteq> [])
   \<and> (\<forall>g. fst (generate_content ext greq) = Inr g \<longrightarrow> gen_result g \<noteq> [])"
proof (intro conjI impI allI)
  assume h: "strip (text req) \<noteq> [] \<and> get_prompt req = Some p \<and> generate_content_api ext p = Returns []"
  let ?ext' = "ext\<lparr>generate_content_api :=
                   \<lambda>q. Raises (str_HTTPException ext 500 (S ''No response generated''))\<rparr>"
  from h have l: "process_text ext req = process_call ext req p"
    and r: "process_text ?ext' req = process_call ?ext' req p"
    by (simp_all add: process_text_prompt)
  from h l show "http_status (fst (process_text ext req)) = 500"
    by (simp add: process_call_def http_status_def)
  from h l r show "process_text ext req = process_text ?ext' req"
    by (simp add: process_call_empty_as_failure)
next
  assume h: "strip (prompt greq) \<noteq> [] \<and> generate_content_api ext (prompt greq) = Returns []"
  then show "http_status (fst (generate_content ext greq)) = 500"
    by (simp add: generate_content_def http_status_def)
  from h show "generate_content ext greq =
          generate_content
            (ext\<lparr>generate_content_api :=
                   \<lambda>q. Raises (str_HTTPException ext 500 (S ''No content generated''))\<rparr>)
            greq"
    by (simp add: generate_content_def)
next
  fix r assume "fst (process_text ext req) = Inr r"
  then show "result r \<noteq> []" by (rule process_text_success_nonempty)
next
  fix g assume "fst (generate_content ext greq) = Inr g"
  then show "gen_result g \<noteq> []" by (rule generate_content_success_nonempty)
qed

theorem empty_response_is_failure_witness:
  "strip (text \<lparr>text = S ''Hello'', action = S ''rewrite'', style = None\<rparr>) \<noteq> []
   \<and> get_prompt \<lparr>text = S ''Hello'', action = S ''rewrite'', style = None\<rparr>
       = Some (S ''Rewrite the following text in a clear, concise manner:'' @ [10, 10] @ S ''Hello'')
   \<and> generate_content_api
        \<lparr>generate_content_api = (\<lambda>q. Returns []), list_models_api = Returns [],
          str_HTTPException = (\<lambda>c d. d)\<rparr>
        (S ''Rewrite the following text in a clear, concise manner:'' @ [10, 10] @ S ''Hello'')
       = Returns []
   \<and> http_status (fst (process_text
        \<lparr>generate_content_api = (\<lambda>q. Returns []), list_models_api = Returns [],
          str_HTTPException = (\<lambda>c d. d)\<rparr>
        \<lparr>text = S ''Hello'', action = S ''rewrite'', style = None\<rparr>)) = 500
   \<and> strip (prompt \<lparr>prompt = S ''Write a poem'', max_tokens = Some 1000\<rparr>) \<noteq> []
   \<and> http_status (fst (generate_content
        \<lparr>generate_content_api = (\<lambda>q. Returns []), list_models_api = Returns [],
          str_HTTPException = (\<lambda>c d. d)\<rparr>
        \<lparr>prompt = S ''Write a poem'', max_tokens = Some 1000\<rparr>)) = 500
   \<and> fst (process_text
        \<lparr>generate_content_api = (\<lambda>q. Returns (S ''ok'')), list_models_api = Returns [],
          str_HTTPException = (\<lambda>c d. d)\<rparr>
        \<lparr>text = S ''Hello'', action = S ''rewrite'', style = None\<rparr>)
       = Inr \<lparr>result = S ''ok'', result_action = S ''rewrite'', result_style = None\<rparr>
   \<and> result \<lparr>result = S ''ok'', result_action = S ''rewrite'', result_style = None\<rparr> \<noteq> []
   \<and> fst (generate_content
        \<lparr>generate_content_api = (\<lambda>q. Returns (S ''ok'')), list_models_api = Returns [],
          str_HTTPException = (\<lambda>c d. d)\<rparr>
        \<lparr>prompt = S ''Write a poem'', max_tokens = Some 1000\<rparr>)
       = Inr \<lparr>gen_result = S ''ok'', gen_prompt = S ''Write a poem''\<rparr>
   \<and> gen_result \<lparr>gen_result = S ''ok'', gen_prompt = S ''Write a poem''\<rparr> \<noteq> []"
proof -
  let ?e0 = "\<lparr>generate_content_api = (\<lambda>q. Returns []), list_models_api = Returns [],
              str_HTTPException = (\<lambda>c d. d)\<rparr>"
  let ?e1 = "\<lparr>generate_content_api = (\<lambda>q. Returns (S ''ok'')), list_models_api = Returns [],
              str_HTTPException = (\<lambda>c d. d)\<rparr>"
  let ?r = "\<lparr>text = S ''Hello'', action = S ''rewrite'', style = None\<rparr>"
  let ?g = "\<lparr>prompt = S ''Write a poem'', max_tokens = Some 1000\<rparr>"
  let ?p = "S ''Rewrite the following text in a clear, concise manner:'' @ [10, 10] @ S ''Hello''"
  have a: "strip (text ?r) \<noteq> []"
    by (simp add: strip_def S_def py_isspace_def)
  have b: "get_prompt ?r = Some ?p"
    by (simp add: get_prompt_def prompt_map_def style_modifier_def S_def)
  have c: "generate_content_api ?e0 ?p = Returns []"
    by simp
  have d: "strip (prompt ?g) \<noteq> []"
    by (simp add: strip_def S_def py_isspace_def)
  have e: "generate_content_api ?e0 (prompt ?g) = Returns []"
    by simp
  have ok: "S ''ok'' \<noteq> []"
    by (simp add: S_def)
  have f: "fst (process_text ?e1 ?r)
             = Inr \<lparr>result = S ''ok'', result_action = S ''rewrite'', result_style = None\<rparr>"
    using a ok by (simp add: process_text_prompt [OF a b] process_call_def)
  have g: "fst (generate_content ?e1 ?g)
             = Inr \<lparr>gen_result = S ''ok'', gen_prompt = S ''Write a poem''\<rparr>"
    using d ok by (simp add: generate_content_def)
  show ?thesis
    using empty_response_is_failure [of ?r ?p ?e0 ?g] empty_response_is_failure [of ?r ?p ?e1 ?g]
      a b c d e f g
    by blast
qed

section \<open>Health check\<close>

text \<open>
  Claim C7. \<open>health_check\<close> takes no argument and reads no state: it always returns the
  dictionary \<open>{"status": "healthy", "service": "Gemini Canvas App"}\<close>, which FastAPI
  sends with status 200; it raises nothing and does not call the external API.
\<close>

theorem health_check_fixed_payload:
  "health_check =
     (Inr [(S ''status'', S ''healthy''), (S ''service'', S ''Gemini Canvas App'')], [])
   \<and> http_status (fst health_check) = 200
   \<and> filter is_api_call (snd health_check) = []"
  by (simp add: health_check_def http_status_def)

section \<open>Fields without influence\<close>

text \<open>
  Claim C9. A request whose style is the empty string builds the same prompt, and has
  the same effects (the same call of the external API, the same log records), as the
  same request with no style.
\<close>

theorem process_text_empty_style_as_absent:
  "get_prompt (req\<lparr>style := Some []\<rparr>) = get_prompt (req\<lparr>style := None\<rparr>)
   \<and> snd (process_text ext (req\<lparr>style := Some []\<rparr>))
       = snd (process_text ext (req\<lparr>style := None\<rparr>))"
proof -
  have sm: "style_modifier (req\<lparr>style := Some []\<rparr>) = style_modifier (req\<lparr>style := None\<rparr>)"
    by (simp add: style_modifier_def)
  have gp: "get_prompt (req\<lparr>style := Some []\<rparr>) = get_prompt (req\<lparr>style := None\<rparr>)"
    by (simp add: get_prompt_def prompt_map_def sm)
  have pc: "snd (process_call ext (req\<lparr>style := Some []\<rparr>) p)
              = snd (process_call ext (req\<lparr>style := None\<rparr>) p)" for p
    by (simp add: process_call_def Let_def split: outcome.split)
  have "snd (process_text ext (req\<lparr>style := Some []\<rparr>))
          = snd (process_text ext (req\<lparr>style := None\<rparr>))"
    by (simp add: process_text_def gp pc split: option.split)
  with gp show ?thesis by simp
qed

text \<open>
  Claim C10. \<open>generate_content\<close> never reads \<open>max_tokens\<close>: two requests with the same
  prompt have the same outcome (response and effects, so the same call of the external
  API), whatever their \<open>max_tokens\<close>, be it given, \<open>null\<close> or left to its default 1000.
\<close>

theorem generate_content_ignores_max_tokens:
  "generate_content ext (req\<lparr>max_tokens := a\<rparr>) = generate_content ext (req\<lparr>max_tokens := b\<rparr>)
   \<and> generate_content ext (GenerateRequest_init p x)
       = generate_content ext (GenerateRequest_init p y)"
proof
  show "generate_content ext (req\<lparr>max_tokens := a\<rparr>)
          = generate_content ext (req\<lparr>max_tokens := b\<rparr>)"
    by (rule generate_content_prompt_only) simp
  show "generate_content ext (GenerateRequest_init p x)
          = generate_content ext (GenerateRequest_init p y)"
    by (rule generate_content_prompt_only) (simp add: GenerateRequest_init_def)
qed

section \<open>The API key\<close>

text \<open>
  The service takes its key from the variable \<open>GEMINI_API_KEY\<close> of the environment (as
  \<open>load_dotenv\<close> left it) and from nowhere else, and does not start without it.
\<close>

lemma API_KEY_missing:
  assumes "load_dotenv dotenv_file environ (S ''GEMINI_API_KEY'') = None
           \<or> load_dotenv dotenv_file environ (S ''GEMINI_API_KEY'') = Some []"
  shows "API_KEY dotenv_file environ =
           (ValueError (S ''Please set GEMINI_API_KEY environment variable''),
            [LogError (S ''GEMINI_API_KEY environment variable not set'')])"
  using assms by (auto simp add: API_KEY_def)

lemma API_KEY_from_environment:
  assumes "fst (API_KEY dotenv_file environ) = Configured k"
  shows "load_dotenv dotenv_file environ (S ''GEMINI_API_KEY'') = Some k \<and> k \<noteq> []"
  using assms by (auto simp add: API_KEY_def Let_def split: option.splits if_splits)

text \<open>The script does not depend on the environment at all.\<close>

lemma app_streamlit_ignores_environ:
  "app_streamlit k environ client_generate prompt_input submit
     = app_streamlit k environ' client_generate prompt_input submit"
  by (simp add: app_streamlit_def)

text \<open>
  Claim C8. With no \<open>GEMINI_API_KEY\<close> anywhere (empty environment, no \<open>.env\<close> file) the
  service raises \<open>ValueError\<close> before an application exists, as the claim says. The
  script, run in the same empty environment with the prompt \<open>hi\<close> submitted, does not
  fail: it builds its client with the key written in its source and gets an answer.
\<close>

theorem app_streamlit_key_not_from_environment:
  "app_streamlit k Map.empty (\<lambda>key p. Returns (Returns (S ''ok''))) (S ''hi'') True
     = [Title (S ''Gemini Canvas Prompt''), Client k, Subheader (S ''Response:''),
        Write (S ''ok'')]
   \<and> fst (API_KEY Map.empty Map.empty)
       = ValueError (S ''Please set GEMINI_API_KEY environment variable'')"
  by (simp add: app_streamlit_def API_KEY_def load_dotenv_def S_Nil_iff)

end
